theory Spec2Isabelle
  imports Complex_Main "HOL-Library.AList"
begin

section \<open>Constants of \<^verbatim>\<open>index.js\<close>\<close>

text \<open>
  The numbers of payloads and blocks are modelled as exact rationals: every number a JSON
  text can spell with digits, without the rounding of doubles. \<^verbatim>\<open>Infinity\<close> is modelled
  where the source itself puts it (the prices of a Db), and the \<^verbatim>\<open>NaN\<close> of
  \<^verbatim>\<open>undefined - quantity\<close> in burn and drop as the branch it takes.
\<close>

type_synonym number = rat
type_synonym address = string
type_synonym asset = string

definition MESSAGE_TTL :: nat where "MESSAGE_TTL = 10"
definition UNDO_HEIGHT :: nat where "UNDO_HEIGHT = 10"
definition CHARGE_SETTLE_BLOCKS :: nat where "CHARGE_SETTLE_BLOCKS = 100"
definition MESSAGES_PER_BLOCK_MAX :: nat where "MESSAGES_PER_BLOCK_MAX = 10000"
definition MIN_DIFFICULTY :: number where "MIN_DIFFICULTY = 1000"
definition TARGET_BLOCKS :: nat where "TARGET_BLOCKS = 10"
definition TARGET_TIME :: number where "TARGET_TIME = 10 * 60 * 1000"
definition TARGET_SWAY_MAX :: number where "TARGET_SWAY_MAX = 2"
definition TARGET_SWAY_MIN :: number where "TARGET_SWAY_MIN = 1 / 2"
definition CRD :: asset where "CRD = ''CRD''"
definition COINBASE_QUANTITY :: number where "COINBASE_QUANTITY = 100"
definition maxTarget :: int where "maxTarget = 2 ^ 256 - 1"
definition zeroHash :: string where "zeroHash = ''0''"

section \<open>Messages and blocks\<close>

text \<open>
  A price as \<^verbatim>\<open>db.prices\<close> holds it: a finite number, \<^verbatim>\<open>Infinity\<close> (the default
  price of CRD), or \<^verbatim>\<open>null\<close> (what \<^verbatim>\<open>JSON.stringify\<close> makes of \<^verbatim>\<open>Infinity\<close>
  when a Db is cloned).
\<close>

datatype jsprice = PNum number | PInfinity | PNull

text \<open>
  The type-specific fields of a parsed payload, one constructor per \<^verbatim>\<open>type\<close> tag; the
  arguments are in the order of the source's destructuring. \<open>Unknown\<close> is any other tag.
\<close>

datatype body =
    Coinbase asset number address
  | Send asset number address address string
  | Minter asset string
  | Mint asset number string
  | Get address asset number
  | Burn asset number string
  | Drop address asset number
  | Price asset number string
  | Buy asset number number string
  | Unknown string

text \<open>\<^verbatim>\<open>JSON.parse(payload)\<close>: the payload is kept in parsed form.\<close>

record payloadJson =
  body :: body
  startHeight :: number

record message =
  payload :: payloadJson
  hash :: string
  signature :: string

record block =
  hash :: string
  prevHash :: string
  height :: number
  difficulty :: number
  version :: string
  timestamp :: number
  messages :: "message list"
  nonce :: number

text \<open>\<^verbatim>\<open>xs.slice(-n)\<close> for a positive \<open>n\<close>: the last \<open>n\<close> elements, all of them when there are fewer.\<close>

definition sliceLast :: "nat \<Rightarrow> 'a list \<Rightarrow> 'a list" where
  "sliceLast n xs = drop (length xs - n) xs"

section \<open>Chain state\<close>

record db =
  balances :: "(address \<times> (asset \<times> number) list) list"
  messageHashes :: "string list list"
  minters :: "(asset \<times> address option) list"
  prices :: "(asset \<times> jsprice) list"

text \<open>
  The mempool \<^verbatim>\<open>{blocks, messages}\<close>; its fields carry a prefix, \<open>blocks\<close> and
  \<open>messages\<close> being the names of the chain and of a block's messages below.
\<close>

record mempool =
  mempoolBlocks :: "block list"
  mempoolMessages :: "message list"

text \<open>
  Objects are association lists in insertion order; \<open>map_of\<close> reads a key (\<open>None\<close> is
  \<^verbatim>\<open>undefined\<close>), \<open>AList.update\<close> assigns one and \<open>AList.delete\<close> deletes one. In
  \<open>minters\<close> the value \<open>None\<close> is \<^verbatim>\<open>null\<close>.
\<close>

definition DEFAULT_DB :: db where
  "DEFAULT_DB =
     \<lparr>balances = [], messageHashes = [], minters = [(CRD, None)], prices = [(CRD, PInfinity)]\<rparr>"

definition DEFAULT_MEMPOOL :: mempool where
  "DEFAULT_MEMPOOL = \<lparr>mempoolBlocks = [], mempoolMessages = []\<rparr>"

text \<open>
  \<^verbatim>\<open>_clone = o => JSON.parse(JSON.stringify(o))\<close>: the copy of a Db differs from the Db
  only where a price is \<^verbatim>\<open>Infinity\<close>, which JSON writes as \<^verbatim>\<open>null\<close>.
\<close>

definition clone :: "db \<Rightarrow> db" where
  "clone d =
     d\<lparr>prices := map (\<lambda>(asset, price). (asset, case price of PInfinity \<Rightarrow> PNull | _ \<Rightarrow> price))
                    (prices d)\<rparr>"

section \<open>External collaborators\<close>

text \<open>
  The functions of the libraries the source calls, taken as parameters: the SHA-256 of a
  payload in hexadecimal, the canonical hash of a block (\<^verbatim>\<open>Block.getHash\<close>, SHA-256 over
  the block's serialisation), \<^verbatim>\<open>eccrypto.verify\<close> (public key, payload hash, signature),
  the address of a public key (Base58 of its SHA-256), the null public key, and
  \<^verbatim>\<open>bigint(s, 16)\<close> of the big-integer library, which throws (\<open>None\<close>) on a string that
  is not a hexadecimal numeral.
\<close>

record crypto =
  sha256hex :: "payloadJson \<Rightarrow> string"
  getHash :: "block \<Rightarrow> string"
  eccVerify :: "string \<Rightarrow> string \<Rightarrow> string \<Rightarrow> bool"
  getAddressFromPublicKey :: "string \<Rightarrow> address"
  NULL_PUBLIC_KEY :: string
  bigint16 :: "string \<Rightarrow> int option"

text \<open>What a function of the source throws.\<close>

datatype exn = ReferenceError string | Error string

text \<open>
  The error object a validator returns: \<^verbatim>\<open>{status, error, soft}\<close>; some branches of
  \<^verbatim>\<open>Message.verify\<close> write the text under the key \<^verbatim>\<open>stack\<close> instead of \<^verbatim>\<open>error\<close>.
  A validator's result is \<open>None\<close> for \<^verbatim>\<open>null\<close> (accepted).
\<close>

record verror =
  status :: nat
  error :: "string option"
  stack :: "string option"
  soft :: bool

definition err :: "nat \<Rightarrow> string \<Rightarrow> verror" where
  "err s e = \<lparr>status = s, error = Some e, stack = None, soft = False\<rparr>"

definition errSoft :: "nat \<Rightarrow> string \<Rightarrow> verror" where
  "errSoft s e = \<lparr>status = s, error = Some e, stack = None, soft = True\<rparr>"

definition errStack :: "nat \<Rightarrow> string \<Rightarrow> verror" where
  "errStack s e = \<lparr>status = s, error = None, stack = Some e, soft = False\<rparr>"

section \<open>Asset names\<close>

text \<open>
  The character class \<^verbatim>\<open>(?:[A-Z0-9]|(?!^)\-(?!$))\<close> at index \<open>i\<close> of a string of length
  \<open>n\<close>: a capital letter or a digit, or a hyphen that is neither the first nor the last
  character of the whole string.
\<close>

definition isAssetChar :: "nat \<Rightarrow> nat \<Rightarrow> char \<Rightarrow> bool" where
  "isAssetChar n i c =
     (List.member ''ABCDEFGHIJKLMNOPQRSTUVWXYZ0123456789'' c
      \<or> (c = CHR ''-'' \<and> i \<noteq> 0 \<and> Suc i \<noteq> n))"

text \<open>A non-empty run of such characters that starts at index \<open>off\<close>.\<close>

definition isSegment :: "nat \<Rightarrow> nat \<Rightarrow> string \<Rightarrow> bool" where
  "isSegment n off seg =
     (seg \<noteq> [] \<and> list_all (\<lambda>(i, c). isAssetChar n i c) (enumerate off seg))"

text \<open>One segment, or two segments with a dot between them, inside a string of length \<open>n\<close>.\<close>

definition matchBasic :: "nat \<Rightarrow> string \<Rightarrow> bool" where
  "matchBasic n s =
     (let seg1 = takeWhile (\<lambda>c. c \<noteq> CHR ''.'') s;
          rest = dropWhile (\<lambda>c. c \<noteq> CHR ''.'') s
      in isSegment n 0 seg1 \<and> (rest = [] \<or> isSegment n (Suc (length seg1)) (tl rest)))"

definition isBaseAsset :: "asset \<Rightarrow> bool" where
  "isBaseAsset asset = isSegment (length asset) 0 asset"

definition isBasicAsset :: "asset \<Rightarrow> bool" where
  "isBasicAsset asset = matchBasic (length asset) asset"

definition isMintAsset :: "asset \<Rightarrow> bool" where
  "isMintAsset asset = (5 \<le> length asset \<and> drop (length asset - 5) asset = '':mint'')"

definition isValidAsset :: "asset \<Rightarrow> bool" where
  "isValidAsset asset =
     matchBasic (length asset)
       (if isMintAsset asset then take (length asset - 5) asset else asset)"

text \<open>
  \<^verbatim>\<open>_getBaseAsset\<close>: the longest prefix of asset characters. The source reads group 1 of
  the match; it calls the function only on an asset that passed \<^verbatim>\<open>_isBasicAsset\<close>, where
  the match exists.
\<close>

definition getBaseAsset :: "asset \<Rightarrow> asset" where
  "getBaseAsset asset =
     map snd (takeWhile (\<lambda>(i, c). isAssetChar (length asset) i c) (enumerate 0 asset))"

text \<open>
  \<^verbatim>\<open>asset.match(/^(.+):mint$/)\<close> of the commit: group 1 when the asset is a non-empty
  text without a line break followed by \<^verbatim>\<open>:mint\<close>.
\<close>

definition matchMint :: "asset \<Rightarrow> asset option" where
  "matchMint asset =
     (let baseAsset = take (length asset - 5) asset
      in if isMintAsset asset \<and> baseAsset \<noteq> []
            \<and> list_all (\<lambda>c. c \<noteq> CHR 0x0A \<and> c \<noteq> CHR 0x0D) baseAsset
         then Some baseAsset else None)"

section \<open>Views of the state: minter, prices, balance\<close>

text \<open>
  A minter as the source reads it from \<^verbatim>\<open>db.minters[asset]\<close>: \<open>None\<close> is
  \<^verbatim>\<open>undefined\<close> (no entry), \<open>Some None\<close> is \<^verbatim>\<open>null\<close>, \<open>Some (Some a)\<close> is the address
  \<open>a\<close>.

  \<^verbatim>\<open>_getPostMessagesMinter\<close> filters the messages that concern the asset and then
  repeats: find the first message that applies to the current minter (a \<^verbatim>\<open>minter\<close>
  message when the minter is \<^verbatim>\<open>undefined\<close>, a \<^verbatim>\<open>send\<close> whose source is the minter),
  apply it and splice it out; stop when a pass finds none. \<open>minterStep\<close> is one pass of
  the inner loop: \<open>None\<close> when no message applies (\<^verbatim>\<open>done\<close> stays true).
\<close>

fun minterStep ::
  "crypto \<Rightarrow> address option option \<Rightarrow> message list
    \<Rightarrow> (address option option \<times> message list) option" where
  "minterStep c minter [] = None"
| "minterStep c minter (message # rest) =
     (let next = map_option (\<lambda>(minter', rest'). (minter', message # rest'))
                   (minterStep c minter rest)
      in case body (payload message) of
           Minter asset publicKey \<Rightarrow>
             if minter = None then
               Some (Some (Some (getAddressFromPublicKey c publicKey)), rest)
             else next
         | Send asset quantity srcAddress dstAddress publicKey \<Rightarrow>
             if minter = Some (Some srcAddress) then Some (Some (Some dstAddress), rest)
             else next
         | _ \<Rightarrow> next)"

lemma minterStep_length:
  "minterStep c minter mintMessages = Some (minter', mintMessages')
    \<Longrightarrow> length mintMessages' < length mintMessages"
proof (induction mintMessages arbitrary: minter' mintMessages')
  case Nil
  then show ?case by simp
next
  case (Cons message rest)
  show ?case
  proof (cases "minterStep c minter rest")
    case None
    with Cons.prems show ?thesis
      by (auto simp: Let_def split: body.splits if_splits)
  next
    case (Some r)
    obtain m0 r0 where r: "r = (m0, r0)" by (cases r)
    with Some Cons.IH have "length r0 < length rest" by simp
    with Cons.prems Some r show ?thesis
      by (auto simp: Let_def split: body.splits if_splits)
  qed
qed

function minterLoop ::
  "crypto \<Rightarrow> address option option \<Rightarrow> message list \<Rightarrow> address option option" where
  "minterLoop c minter mintMessages =
     (case minterStep c minter mintMessages of
        None \<Rightarrow> minter
      | Some (minter', mintMessages') \<Rightarrow> minterLoop c minter' mintMessages')"
  by pat_completeness auto
termination
  by (relation "measure (\<lambda>(c, minter, mintMessages). length mintMessages)")
    (auto dest: minterStep_length)

definition getPostMessagesMinter ::
  "crypto \<Rightarrow> address option option \<Rightarrow> asset \<Rightarrow> message list \<Rightarrow> address option option" where
  "getPostMessagesMinter c minter asset msgs =
     (let mintMessages =
            filter (\<lambda>message. case body (payload message) of
                       Minter a publicKey \<Rightarrow> a = asset
                     | Send a quantity srcAddress dstAddress publicKey \<Rightarrow> a = asset @ '':mint''
                     | _ \<Rightarrow> False) msgs
      in minterLoop c minter mintMessages)"

definition getConfirmedMinter ::
  "crypto \<Rightarrow> db \<Rightarrow> message list \<Rightarrow> asset \<Rightarrow> address option option" where
  "getConfirmedMinter c db confirmingMessages asset =
     getPostMessagesMinter c (map_of (minters db) asset) asset confirmingMessages"

definition getUnconfirmedMinter ::
  "crypto \<Rightarrow> db \<Rightarrow> mempool \<Rightarrow> message list \<Rightarrow> asset \<Rightarrow> address option option" where
  "getUnconfirmedMinter c db mempool confirmingMessages asset =
     getPostMessagesMinter c (getConfirmedMinter c db confirmingMessages asset) asset
       (mempoolMessages mempool)"

text \<open>
  The choice the source writes at every use,
  \<^verbatim>\<open>!mempool ? _getConfirmedX(db, confirmingMessages, ..) : _getUnconfirmedX(db, mempool, confirmingMessages, ..)\<close>;
  a \<^verbatim>\<open>null\<close> mempool is \<open>None\<close>.
\<close>

definition viewMinter ::
  "crypto \<Rightarrow> db \<Rightarrow> mempool option \<Rightarrow> message list \<Rightarrow> asset \<Rightarrow> address option option" where
  "viewMinter c db mempool confirmingMessages asset =
     (case mempool of
        None \<Rightarrow> getConfirmedMinter c db confirmingMessages asset
      | Some mp \<Rightarrow> getUnconfirmedMinter c db mp confirmingMessages asset)"

text \<open>The prices of the \<^verbatim>\<open>price\<close> messages for the asset, appended in message order.\<close>

definition getPostMessagesPrices :: "jsprice list \<Rightarrow> asset \<Rightarrow> message list \<Rightarrow> jsprice list" where
  "getPostMessagesPrices ps asset msgs =
     ps @ List.map_filter
            (\<lambda>message. case body (payload message) of
               Price a price publicKey \<Rightarrow> if a = asset then Some (PNum price) else None
             | _ \<Rightarrow> None) msgs"

definition getConfirmedPrices :: "db \<Rightarrow> message list \<Rightarrow> asset \<Rightarrow> jsprice list" where
  "getConfirmedPrices db confirmingMessages asset =
     (let ps = [case map_of (prices db) asset of
                  Some (PNum price) \<Rightarrow> PNum price
                | Some PInfinity \<Rightarrow> PInfinity
                | _ \<Rightarrow> PInfinity];
          ps = getPostMessagesPrices ps asset confirmingMessages
      in map (\<lambda>price. if price \<noteq> PNull then price else PInfinity) ps)"

definition getUnconfirmedPrices :: "db \<Rightarrow> mempool \<Rightarrow> message list \<Rightarrow> asset \<Rightarrow> jsprice list" where
  "getUnconfirmedPrices db mempool confirmingMessages asset =
     (let ps = getConfirmedPrices db confirmingMessages asset;
          ps = getPostMessagesPrices ps asset (mempoolMessages mempool)
      in map (\<lambda>price. if price \<noteq> PNull then price else PInfinity) ps)"

definition viewPrices :: "db \<Rightarrow> mempool option \<Rightarrow> message list \<Rightarrow> asset \<Rightarrow> jsprice list" where
  "viewPrices db mempool confirmingMessages asset =
     (case mempool of
        None \<Rightarrow> getConfirmedPrices db confirmingMessages asset
      | Some mp \<Rightarrow> getUnconfirmedPrices db mp confirmingMessages asset)"

text \<open>
  \<^verbatim>\<open>_getConfirmedPrice\<close> and \<^verbatim>\<open>_getUnconfirmedPrice\<close>: the last of the prices (the list
  starts with the Db's price, so it is never empty).
\<close>

definition viewPrice :: "db \<Rightarrow> mempool option \<Rightarrow> message list \<Rightarrow> asset \<Rightarrow> jsprice" where
  "viewPrice db mempool confirmingMessages asset =
     last (viewPrices db mempool confirmingMessages asset)"

text \<open>
  One iteration of the loop of \<^verbatim>\<open>_getPostMessagesBalance\<close>. In the \<^verbatim>\<open>buy\<close> branch for
  the asset CRD, \<^verbatim>\<open>quantity\<close> and \<^verbatim>\<open>price\<close> are declared inside the block of
  \<^verbatim>\<open>if (address === minter)\<close> only; the next statement,
  \<^verbatim>\<open>if (address === localAddress) balance = balance - (price * quantity)\<close>, reads them out
  of scope and throws a ReferenceError.
\<close>

definition postMessageBalance ::
  "crypto \<Rightarrow> number \<Rightarrow> db \<Rightarrow> mempool option \<Rightarrow> message list \<Rightarrow> address \<Rightarrow> asset
    \<Rightarrow> message \<Rightarrow> exn + number" where
  "postMessageBalance c balance db mempool confirmingMessages address asset message =
     (case body (payload message) of
        Coinbase localAsset quantity localAddress \<Rightarrow>
          Inr (if localAsset = asset \<and> localAddress = address then balance + quantity
               else balance)
      | Send a quantity srcAddress dstAddress publicKey \<Rightarrow>
          Inr (if a = asset then
                 (let balance1 = (if srcAddress = address then balance - quantity else balance)
                  in if dstAddress = address then balance1 + quantity else balance1)
               else balance)
      | Buy localAsset quantity price publicKey \<Rightarrow>
          (let localAddress = getAddressFromPublicKey c publicKey
           in if asset = CRD then
                (let minter = viewMinter c db mempool confirmingMessages localAsset;
                     balance1 = (if Some (Some address) = minter then balance + price * quantity
                                 else balance)
                 in if address = localAddress then Inl (ReferenceError ''price is not defined'')
                    else Inr balance1)
              else
                Inr (if address = localAddress \<and> asset = localAsset then balance + quantity
                     else balance))
      | Mint localAsset quantity publicKey \<Rightarrow>
          Inr (if getAddressFromPublicKey c publicKey = address \<and> localAsset = asset
               then balance + quantity else balance)
      | Get localAddress localAsset quantity \<Rightarrow>
          Inr (if localAddress = address \<and> localAsset = asset then balance + quantity
               else balance)
      | Burn localAsset quantity publicKey \<Rightarrow>
          Inr (if getAddressFromPublicKey c publicKey = address \<and> localAsset = asset
               then balance - quantity else balance)
      | Drop localAddress localAsset quantity \<Rightarrow>
          Inr (if localAddress = address \<and> localAsset = asset then balance - quantity
               else balance)
      | Minter localAsset publicKey \<Rightarrow>
          Inr (if getAddressFromPublicKey c publicKey = address \<and> localAsset @ '':mint'' = asset
               then balance + 1 else balance)
      | _ \<Rightarrow> Inr balance)"

fun getPostMessagesBalance ::
  "crypto \<Rightarrow> number \<Rightarrow> db \<Rightarrow> mempool option \<Rightarrow> message list \<Rightarrow> address \<Rightarrow> asset
    \<Rightarrow> message list \<Rightarrow> exn + number" where
  "getPostMessagesBalance c balance db mempool confirmingMessages address asset [] = Inr balance"
| "getPostMessagesBalance c balance db mempool confirmingMessages address asset (message # rest) =
     (case postMessageBalance c balance db mempool confirmingMessages address asset message of
        Inl e \<Rightarrow> Inl e
      | Inr balance' \<Rightarrow>
          getPostMessagesBalance c balance' db mempool confirmingMessages address asset rest)"

definition getConfirmedBalance ::
  "crypto \<Rightarrow> db \<Rightarrow> message list \<Rightarrow> address \<Rightarrow> asset \<Rightarrow> exn + number" where
  "getConfirmedBalance c db confirmingMessages address asset =
     (let result = (case map_of (balances db) address of
                      None \<Rightarrow> None
                    | Some addressEntry \<Rightarrow> map_of addressEntry asset);
          result = (case result of None \<Rightarrow> 0 | Some balance \<Rightarrow> balance)
      in getPostMessagesBalance c result db None confirmingMessages address asset
           confirmingMessages)"

definition getUnconfirmedBalance ::
  "crypto \<Rightarrow> db \<Rightarrow> mempool \<Rightarrow> message list \<Rightarrow> address \<Rightarrow> asset \<Rightarrow> exn + number" where
  "getUnconfirmedBalance c db mempool confirmingMessages address asset =
     (case getConfirmedBalance c db confirmingMessages address asset of
        Inl e \<Rightarrow> Inl e
      | Inr result \<Rightarrow>
          getPostMessagesBalance c result db (Some mempool) confirmingMessages address asset
            (mempoolMessages mempool))"

definition viewBalance ::
  "crypto \<Rightarrow> db \<Rightarrow> mempool option \<Rightarrow> message list \<Rightarrow> address \<Rightarrow> asset \<Rightarrow> exn + number" where
  "viewBalance c db mempool confirmingMessages address asset =
     (case mempool of
        None \<Rightarrow> getConfirmedBalance c db confirmingMessages address asset
      | Some mp \<Rightarrow> getUnconfirmedBalance c db mp confirmingMessages address asset)"

section \<open>Message validator\<close>

text \<open>
  \<^verbatim>\<open>quantity > 0 && Math.floor(quantity) === quantity\<close>, and the same test of a price with
  \<^verbatim>\<open>isFinite(price)\<close>, which holds of every number of the model.
\<close>

definition isPositiveInteger :: "number \<Rightarrow> bool" where
  "isPositiveInteger quantity = (quantity > 0 \<and> of_int \<lfloor>quantity\<rfloor> = quantity)"

text \<open>
  The branches of the \<^verbatim>\<open>switch (type)\<close> of \<^verbatim>\<open>Message.verify\<close>, one definition each;
  \<open>payloadHash\<close> is the SHA-256 of the payload and \<open>sig\<close> the message's signature.
\<close>

definition verifyCoinbase ::
  "crypto \<Rightarrow> message list \<Rightarrow> string \<Rightarrow> string \<Rightarrow> asset \<Rightarrow> number \<Rightarrow> exn + verror option" where
  "verifyCoinbase c confirmingMessages payloadHash sig asset quantity =
     (if eccVerify c (NULL_PUBLIC_KEY c) payloadHash sig then
        if asset = CRD \<and> quantity = COINBASE_QUANTITY then
          if length (filter (\<lambda>confirmingMessage.
                 case body (payload confirmingMessage) of
                   Coinbase a q address \<Rightarrow> True
                 | _ \<Rightarrow> False) confirmingMessages) = 0
          then Inr None
          else Inr (Some (err 400 ''multiple coinbases''))
        else Inr (Some (err 400 ''invalid coinbase''))
      else Inr (Some (err 400 ''invalid signature'')))"

definition verifySend ::
  "crypto \<Rightarrow> db \<Rightarrow> mempool option \<Rightarrow> message list \<Rightarrow> string \<Rightarrow> string
    \<Rightarrow> asset \<Rightarrow> number \<Rightarrow> address \<Rightarrow> string \<Rightarrow> exn + verror option" where
  "verifySend c db mempool confirmingMessages payloadHash sig asset quantity srcAddress publicKey =
     (if eccVerify c publicKey payloadHash sig
         \<and> getAddressFromPublicKey c publicKey = srcAddress then
        if isValidAsset asset then
          if isPositiveInteger quantity \<and> (\<not> isMintAsset asset \<or> quantity = 1) then
            (case viewBalance c db mempool confirmingMessages srcAddress asset of
               Inl e \<Rightarrow> Inl e
             | Inr balance \<Rightarrow>
                 if balance \<ge> quantity then Inr None
                 else Inr (Some (err 402 ''insufficient funds'')))
          else Inr (Some (err 400 ''invalid quantity''))
        else Inr (Some (err 400 ''invalid asset''))
      else Inr (Some (err 400 ''invalid signature'')))"

definition verifyMinter ::
  "crypto \<Rightarrow> db \<Rightarrow> mempool option \<Rightarrow> message list \<Rightarrow> string \<Rightarrow> string
    \<Rightarrow> asset \<Rightarrow> string \<Rightarrow> exn + verror option" where
  "verifyMinter c db mempool confirmingMessages payloadHash sig asset publicKey =
     (if eccVerify c publicKey payloadHash sig then
        if isBaseAsset asset then
          (let minter = viewMinter c db mempool confirmingMessages asset
           in if minter = None then Inr None
              else Inr (Some (errStack 400 ''asset already has minter'')))
        else Inr (Some (errStack 400 ''invalid asset''))
      else Inr (Some (err 400 ''invalid signature'')))"

definition verifyMint ::
  "crypto \<Rightarrow> db \<Rightarrow> mempool option \<Rightarrow> message list \<Rightarrow> string \<Rightarrow> string
    \<Rightarrow> asset \<Rightarrow> number \<Rightarrow> string \<Rightarrow> exn + verror option" where
  "verifyMint c db mempool confirmingMessages payloadHash sig asset quantity publicKey =
     (if eccVerify c publicKey payloadHash sig then
        if isBasicAsset asset then
          if isPositiveInteger quantity then
            (let address = getAddressFromPublicKey c publicKey;
                 baseAsset = getBaseAsset asset;
                 minter = viewMinter c db mempool confirmingMessages baseAsset
             in if minter = Some (Some address) then Inr None
                else
                  (let price = viewPrice db mempool confirmingMessages baseAsset
                   in if price = PNum 0 then Inr None
                      else Inr (Some (errStack 400 ''address cannot mint this asset''))))
          else Inr (Some (err 400 ''invalid quantity''))
        else Inr (Some (err 400 ''invalid asset''))
      else Inr (Some (err 400 ''invalid signature'')))"

text \<open>
  \<^verbatim>\<open>_checkFree\<close> of get, burn and drop (written out three times in the source, with the
  verb of the message in the error text).
\<close>

definition checkFree ::
  "crypto \<Rightarrow> db \<Rightarrow> mempool option \<Rightarrow> message list \<Rightarrow> asset \<Rightarrow> address \<Rightarrow> string
    \<Rightarrow> verror option" where
  "checkFree c db mempool confirmingMessages asset address verb =
     (let baseAsset = getBaseAsset asset;
          minter = viewMinter c db mempool confirmingMessages baseAsset
      in if minter = None \<or> minter = Some (Some address) then None
         else
           (let price = viewPrice db mempool confirmingMessages baseAsset
            in if price = PNum 0 then None
               else Some (errStack 400 (''address cannot '' @ verb @ '' this asset''))))"

definition checkBalance ::
  "crypto \<Rightarrow> db \<Rightarrow> mempool option \<Rightarrow> message list \<Rightarrow> address \<Rightarrow> asset \<Rightarrow> number
    \<Rightarrow> exn + verror option" where
  "checkBalance c db mempool confirmingMessages address asset quantity =
     (case viewBalance c db mempool confirmingMessages address asset of
        Inl e \<Rightarrow> Inl e
      | Inr balance \<Rightarrow>
          if balance \<ge> quantity then Inr None
          else Inr (Some (err 402 ''insufficient funds'')))"

definition verifyGet ::
  "crypto \<Rightarrow> db \<Rightarrow> mempool option \<Rightarrow> message list \<Rightarrow> string \<Rightarrow> string
    \<Rightarrow> address \<Rightarrow> asset \<Rightarrow> number \<Rightarrow> exn + verror option" where
  "verifyGet c db mempool confirmingMessages payloadHash sig address asset quantity =
     (if eccVerify c (NULL_PUBLIC_KEY c) payloadHash sig then
        if isBasicAsset asset then
          if isPositiveInteger quantity then
            Inr (checkFree c db mempool confirmingMessages asset address ''mint'')
          else Inr (Some (err 400 ''invalid quantity''))
        else Inr (Some (err 400 ''invalid asset''))
      else Inr (Some (err 400 ''invalid signature'')))"

text \<open>\<^verbatim>\<open>return _checkFree() || _checkBalance()\<close>: the balance is read only when the gate passes.\<close>

definition verifyBurn ::
  "crypto \<Rightarrow> db \<Rightarrow> mempool option \<Rightarrow> message list \<Rightarrow> string \<Rightarrow> string
    \<Rightarrow> asset \<Rightarrow> number \<Rightarrow> string \<Rightarrow> exn + verror option" where
  "verifyBurn c db mempool confirmingMessages payloadHash sig asset quantity publicKey =
     (if eccVerify c publicKey payloadHash sig then
        if isBasicAsset asset then
          if isPositiveInteger quantity then
            (let address = getAddressFromPublicKey c publicKey
             in case checkFree c db mempool confirmingMessages asset address ''burn'' of
                  Some e \<Rightarrow> Inr (Some e)
                | None \<Rightarrow> checkBalance c db mempool confirmingMessages address asset quantity)
          else Inr (Some (err 400 ''invalid quantity''))
        else Inr (Some (err 400 ''invalid asset''))
      else Inr (Some (err 400 ''invalid signature'')))"

definition verifyDrop ::
  "crypto \<Rightarrow> db \<Rightarrow> mempool option \<Rightarrow> message list \<Rightarrow> string \<Rightarrow> string
    \<Rightarrow> address \<Rightarrow> asset \<Rightarrow> number \<Rightarrow> exn + verror option" where
  "verifyDrop c db mempool confirmingMessages payloadHash sig address asset quantity =
     (if eccVerify c (NULL_PUBLIC_KEY c) payloadHash sig then
        if isBasicAsset asset then
          if isPositiveInteger quantity then
            (case checkFree c db mempool confirmingMessages asset address ''drop'' of
               Some e \<Rightarrow> Inr (Some e)
             | None \<Rightarrow> checkBalance c db mempool confirmingMessages address asset quantity)
          else Inr (Some (err 400 ''invalid quantity''))
        else Inr (Some (err 400 ''invalid asset''))
      else Inr (Some (err 400 ''invalid signature'')))"

definition verifyPrice ::
  "crypto \<Rightarrow> db \<Rightarrow> mempool option \<Rightarrow> message list \<Rightarrow> string \<Rightarrow> string
    \<Rightarrow> asset \<Rightarrow> number \<Rightarrow> string \<Rightarrow> exn + verror option" where
  "verifyPrice c db mempool confirmingMessages payloadHash sig asset price publicKey =
     (if eccVerify c publicKey payloadHash sig then
        if isBaseAsset asset then
          (let address = getAddressFromPublicKey c publicKey;
               minter = viewMinter c db mempool confirmingMessages asset
           in if minter = Some (Some address) then
                if price \<ge> 0 \<and> of_int \<lfloor>price\<rfloor> = price then Inr None
                else Inr (Some (errStack 400 ''invalid price''))
              else Inr (Some (errStack 400 ''address is not minter of this asset'')))
        else Inr (Some (err 400 ''invalid asset''))
      else Inr (Some (err 400 ''invalid signature'')))"

text \<open>\<^verbatim>\<open>if (minter)\<close>: an address that is not the empty string.\<close>

definition truthy :: "address option option \<Rightarrow> bool" where
  "truthy minter = (case minter of Some (Some a) \<Rightarrow> a \<noteq> [] | _ \<Rightarrow> False)"

definition verifyBuy ::
  "crypto \<Rightarrow> db \<Rightarrow> mempool option \<Rightarrow> message list \<Rightarrow> string \<Rightarrow> string
    \<Rightarrow> asset \<Rightarrow> number \<Rightarrow> number \<Rightarrow> string \<Rightarrow> exn + verror option" where
  "verifyBuy c db mempool confirmingMessages payloadHash sig asset quantity price publicKey =
     (if eccVerify c publicKey payloadHash sig then
        if isBaseAsset asset then
          if isPositiveInteger quantity then
            if isPositiveInteger price then
              (let address = getAddressFromPublicKey c publicKey;
                   minter = viewMinter c db mempool confirmingMessages asset
               in if truthy minter then
                    (let ps = viewPrices db mempool confirmingMessages asset
                     in if List.member ps (PNum price) then
                          (case viewBalance c db mempool confirmingMessages address CRD of
                             Inl e \<Rightarrow> Inl e
                           | Inr balance \<Rightarrow>
                               if balance \<ge> quantity * price then Inr None
                               else Inr (Some (errStack 400 ''insufficient funds'')))
                        else Inr (Some (errStack 400 ''incorrect declared price'')))
                  else Inr (Some (errStack 400 ''address is not minter of this asset'')))
            else Inr (Some (errStack 400 ''invalid price''))
          else Inr (Some (errStack 400 ''invalid quantity''))
        else Inr (Some (err 400 ''invalid asset''))
      else Inr (Some (err 400 ''invalid signature'')))"

text \<open>
  \<^verbatim>\<open>Message.verify(db, blocks, mempool = null, confirmingMessages = [])\<close>. The result is
  \<open>Inr None\<close> when the message is accepted, \<open>Inr (Some e)\<close> when it is rejected with the
  error \<open>e\<close>, and \<open>Inl x\<close> when the call throws \<open>x\<close>.
\<close>

definition Message_verify ::
  "crypto \<Rightarrow> message \<Rightarrow> db \<Rightarrow> block list \<Rightarrow> mempool option \<Rightarrow> message list
    \<Rightarrow> exn + verror option" where
  "Message_verify c message db blocks mempool confirmingMessages =
     (let payloadHashHex = sha256hex c (payload message)
      in if payloadHashHex = message.hash message then
           (let payloadJson = payload message;
                endHeight = startHeight payloadJson + of_nat MESSAGE_TTL;
                nextHeight = (if length blocks > 0 then height (last blocks) else 0) + 1
            in if nextHeight \<ge> startHeight payloadJson \<and> nextHeight < endHeight then
                 if \<not> list_ex (\<lambda>hashes. List.member hashes (message.hash message))
                        (messageHashes db) then
                   (case body payloadJson of
                      Coinbase asset quantity address \<Rightarrow>
                        verifyCoinbase c confirmingMessages payloadHashHex (signature message)
                          asset quantity
                    | Send asset quantity srcAddress dstAddress publicKey \<Rightarrow>
                        verifySend c db mempool confirmingMessages payloadHashHex
                          (signature message) asset quantity srcAddress publicKey
                    | Minter asset publicKey \<Rightarrow>
                        verifyMinter c db mempool confirmingMessages payloadHashHex
                          (signature message) asset publicKey
                    | Mint asset quantity publicKey \<Rightarrow>
                        verifyMint c db mempool confirmingMessages payloadHashHex
                          (signature message) asset quantity publicKey
                    | Get address asset quantity \<Rightarrow>
                        verifyGet c db mempool confirmingMessages payloadHashHex
                          (signature message) address asset quantity
                    | Burn asset quantity publicKey \<Rightarrow>
                        verifyBurn c db mempool confirmingMessages payloadHashHex
                          (signature message) asset quantity publicKey
                    | Drop address asset quantity \<Rightarrow>
                        verifyDrop c db mempool confirmingMessages payloadHashHex
                          (signature message) address asset quantity
                    | Price asset price publicKey \<Rightarrow>
                        verifyPrice c db mempool confirmingMessages payloadHashHex
                          (signature message) asset price publicKey
                    | Buy asset quantity price publicKey \<Rightarrow>
                        verifyBuy c db mempool confirmingMessages payloadHashHex
                          (signature message) asset quantity price publicKey
                    | Unknown type \<Rightarrow> Inr (Some (err 400 ''unknown message type'')))
                 else Inr (Some (errSoft 400 ''replay detected''))
               else Inr (Some (err 400 ''ttl expired'')))
         else Inr (Some (err 400 ''invalid hash'')))"

section \<open>Consensus engine\<close>

definition getNextBlockMinTimestamp :: "block list \<Rightarrow> number" where
  "getNextBlockMinTimestamp blocks =
     (let checkBlocks = sliceLast TARGET_BLOCKS blocks;
          sortedCheckBlocks = sort_key timestamp checkBlocks
      in if length sortedCheckBlocks > 0 then
           (let middleIndex = (length sortedCheckBlocks - 1) div 2
            in if length sortedCheckBlocks mod 2 \<noteq> 0 then
                 timestamp (sortedCheckBlocks ! middleIndex)
               else
                 (timestamp (sortedCheckBlocks ! middleIndex)
                    + timestamp (sortedCheckBlocks ! (middleIndex + 1))) / 2)
         else 0)"

text \<open>
  The loop of \<^verbatim>\<open>checkBlocksTimeDiff\<close>: \<open>firstCheckBlock\<close> and \<open>lastCheckBlock\<close> start as
  \<^verbatim>\<open>null\<close> (\<open>None\<close>).
\<close>

fun timeDiffLoop :: "block list \<Rightarrow> block option \<Rightarrow> block option \<Rightarrow> block option \<times> block option" where
  "timeDiffLoop [] firstCheckBlock lastCheckBlock = (firstCheckBlock, lastCheckBlock)"
| "timeDiffLoop (checkBlock # rest) firstCheckBlock lastCheckBlock =
     timeDiffLoop rest
       (case firstCheckBlock of
          None \<Rightarrow> Some checkBlock
        | Some f \<Rightarrow> if timestamp checkBlock < timestamp f then Some checkBlock else Some f)
       (case lastCheckBlock of
          None \<Rightarrow> Some checkBlock
        | Some l \<Rightarrow> if timestamp checkBlock > timestamp l then Some checkBlock else Some l)"

text \<open>
  On a non-empty list the loop leaves both blocks set (lemma \<open>timeDiffLoop_set\<close> below), so
  the last case of \<open>checkBlocksTimeDiff\<close> is never taken.
\<close>

definition checkBlocksTimeDiff :: "block list \<Rightarrow> number" where
  "checkBlocksTimeDiff checkBlocks =
     (if length checkBlocks > 0 then
        (case timeDiffLoop checkBlocks None None of
           (Some firstCheckBlock, Some lastCheckBlock) \<Rightarrow>
             timestamp lastCheckBlock - timestamp firstCheckBlock
         | _ \<Rightarrow> 0)
      else 0)"

definition averageDifficulty :: "block list \<Rightarrow> number" where
  "averageDifficulty checkBlocks =
     (if length checkBlocks > 0 then
        fold (\<lambda>checkBlock acc. acc + difficulty checkBlock) checkBlocks 0
          / of_nat (length checkBlocks)
      else 0)"

definition getNextBlockBaseDifficulty :: "block list \<Rightarrow> number" where
  "getNextBlockBaseDifficulty blocks =
     (let checkBlocks = sliceLast TARGET_BLOCKS blocks;
          expectedTimeDiff = TARGET_TIME;
          accuracyFactor =
            max (min (checkBlocksTimeDiff checkBlocks / expectedTimeDiff) TARGET_SWAY_MAX)
              TARGET_SWAY_MIN;
          newDifficulty = max (averageDifficulty checkBlocks / accuracyFactor) MIN_DIFFICULTY
      in newDifficulty)"

section \<open>Proof of work\<close>

text \<open>\<^verbatim>\<open>Math.round\<close>: the nearest integer, a half rounded up.\<close>

definition jsRound :: "number \<Rightarrow> int" where
  "jsRound x = \<lfloor>x + 1 / 2\<rfloor>"

text \<open>\<^verbatim>\<open>a.divide(b)\<close> of big-integer: the quotient truncated towards zero; it throws on \<open>b = 0\<close>.\<close>

definition divide :: "int \<Rightarrow> int \<Rightarrow> exn + int" where
  "divide a b =
     (if b = 0 then Inl (Error ''Cannot divide by zero'')
      else Inr (sgn a * sgn b * (\<bar>a\<bar> div \<bar>b\<bar>)))"

definition bigintHex :: "crypto \<Rightarrow> string \<Rightarrow> exn + int" where
  "bigintHex c s =
     (case bigint16 c s of None \<Rightarrow> Inl (Error ''not a valid digit'') | Some v \<Rightarrow> Inr v)"

definition getDifficultyTarget :: "number \<Rightarrow> exn + int" where
  "getDifficultyTarget d = divide maxTarget (jsRound d)"

definition getHashDifficulty :: "crypto \<Rightarrow> string \<Rightarrow> exn + number" where
  "getHashDifficulty c h =
     (case bigintHex c h of
        Inl e \<Rightarrow> Inl e
      | Inr v \<Rightarrow> (case divide v maxTarget of Inl e \<Rightarrow> Inl e | Inr q \<Rightarrow> Inr (of_int q)))"

definition checkHashMeetsTarget :: "crypto \<Rightarrow> string \<Rightarrow> int \<Rightarrow> exn + bool" where
  "checkHashMeetsTarget c h target =
     (case bigintHex c h of Inl e \<Rightarrow> Inl e | Inr v \<Rightarrow> Inr (v \<le> target))"

text \<open>The loop of \<^verbatim>\<open>_getMessagesDifficulty\<close>, \<open>result\<close> being its accumulator.\<close>

fun messagesDifficultyLoop :: "crypto \<Rightarrow> number \<Rightarrow> message list \<Rightarrow> exn + number" where
  "messagesDifficultyLoop c result [] = Inr result"
| "messagesDifficultyLoop c result (message # rest) =
     (case getHashDifficulty c (message.hash message) of
        Inl e \<Rightarrow> Inl e
      | Inr d \<Rightarrow> messagesDifficultyLoop c (result + d) rest)"

definition getMessagesDifficulty :: "crypto \<Rightarrow> message list \<Rightarrow> exn + number" where
  "getMessagesDifficulty c msgs = messagesDifficultyLoop c 0 msgs"

section \<open>Block validator\<close>

definition checkHash :: "crypto \<Rightarrow> block \<Rightarrow> bool" where
  "checkHash c block = (getHash c block = block.hash block)"

definition checkPrevHash :: "block list \<Rightarrow> block \<Rightarrow> bool" where
  "checkPrevHash blocks block =
     (let prevBlockHash = (if length blocks > 0 then block.hash (last blocks) else zeroHash)
      in prevHash block = prevBlockHash)"

definition checkHeight :: "block list \<Rightarrow> block \<Rightarrow> bool" where
  "checkHeight blocks block =
     (let nextBlockHeight = (if length blocks > 0 then height (last blocks) else 0) + 1
      in height block = nextBlockHeight)"

definition checkTimestamp :: "block list \<Rightarrow> block \<Rightarrow> bool" where
  "checkTimestamp blocks block = (timestamp block \<ge> getNextBlockMinTimestamp blocks)"

text \<open>
  \<^verbatim>\<open>_checkHashMeetsTarget(this.hash, _getDifficultyTarget(this.difficulty))\<close>: the argument
  is evaluated first.
\<close>

definition checkDifficultyClaim :: "crypto \<Rightarrow> block \<Rightarrow> exn + bool" where
  "checkDifficultyClaim c block =
     (case getDifficultyTarget (difficulty block) of
        Inl e \<Rightarrow> Inl e
      | Inr target \<Rightarrow> checkHashMeetsTarget c (block.hash block) target)"

definition checkSufficientDifficulty :: "crypto \<Rightarrow> block list \<Rightarrow> block \<Rightarrow> exn + bool" where
  "checkSufficientDifficulty c blocks block =
     (case getMessagesDifficulty c (messages block) of
        Inl e \<Rightarrow> Inl e
      | Inr bonus \<Rightarrow>
          Inr (difficulty block \<ge> max (getNextBlockBaseDifficulty blocks - bonus) MIN_DIFFICULTY))"

definition checkMessagesCount :: "block \<Rightarrow> bool" where
  "checkMessagesCount block = (length (messages block) \<le> MESSAGES_PER_BLOCK_MAX)"

text \<open>
  The loop of \<^verbatim>\<open>_verifyMessages\<close>: message \<open>i\<close> is verified with all the other messages
  of the block as its confirming messages (\<open>seen\<close> are the messages before it).
\<close>

fun verifyMessagesLoop ::
  "crypto \<Rightarrow> db \<Rightarrow> block list \<Rightarrow> mempool option \<Rightarrow> message list \<Rightarrow> message list
    \<Rightarrow> exn + verror option" where
  "verifyMessagesLoop c db blocks mempool seen [] = Inr None"
| "verifyMessagesLoop c db blocks mempool seen (message # rest) =
     (case Message_verify c message db blocks mempool (seen @ rest) of
        Inl e \<Rightarrow> Inl e
      | Inr (Some e) \<Rightarrow> Inr (Some e)
      | Inr None \<Rightarrow> verifyMessagesLoop c db blocks mempool (seen @ [message]) rest)"

definition verifyMessages ::
  "crypto \<Rightarrow> block \<Rightarrow> db \<Rightarrow> block list \<Rightarrow> mempool option \<Rightarrow> exn + verror option" where
  "verifyMessages c block db blocks mempool =
     verifyMessagesLoop c db blocks mempool [] (messages block)"

text \<open>\<^verbatim>\<open>Block.verify(db, blocks, mempool = null)\<close>.\<close>

definition Block_verify ::
  "crypto \<Rightarrow> block \<Rightarrow> db \<Rightarrow> block list \<Rightarrow> mempool option \<Rightarrow> exn + verror option" where
  "Block_verify c block db blocks mempool =
     (if \<not> checkHash c block then Inr (Some (err 400 ''invalid hash''))
      else if \<not> checkPrevHash blocks block then
        Inr (Some (errSoft 400 ''invalid previous hash''))
      else if \<not> checkHeight blocks block then Inr (Some (err 400 ''invalid height''))
      else if \<not> checkTimestamp blocks block then Inr (Some (err 400 ''invalid timestamp''))
      else
        (case checkDifficultyClaim c block of
           Inl e \<Rightarrow> Inl e
         | Inr claim \<Rightarrow>
             if \<not> claim then Inr (Some (err 400 ''invalid difficulty claim''))
             else if \<not> checkMessagesCount block then Inr (Some (err 400 ''too many messages''))
             else
               (case checkSufficientDifficulty c blocks block of
                  Inl e \<Rightarrow> Inl e
                | Inr sufficient \<Rightarrow>
                    if \<not> sufficient then Inr (Some (err 400 ''insufficient difficulty''))
                    else verifyMessages c block db blocks mempool)))"

section \<open>Chain manager\<close>

datatype event = MessageEvent message | BlockEvent block

text \<open>
  \<^verbatim>\<open>Crds.addMessage(db, blocks, mempool, message)\<close>: the result, the mempool after the
  call and the events emitted. \<^verbatim>\<open>mempoolMessage.equals(message)\<close> compares the hashes.
\<close>

definition equals :: "message \<Rightarrow> message \<Rightarrow> bool" where
  "equals this message = (message.hash this = message.hash message)"

definition addMessage ::
  "crypto \<Rightarrow> db \<Rightarrow> block list \<Rightarrow> mempool \<Rightarrow> message
    \<Rightarrow> exn + (verror option \<times> mempool \<times> event list)" where
  "addMessage c db blocks mempool message =
     (if length (mempoolMessages mempool) < MESSAGES_PER_BLOCK_MAX then
        if \<not> list_ex (\<lambda>mempoolMessage. equals mempoolMessage message)
               (mempoolMessages mempool) then
          (case Message_verify c message db blocks (Some mempool) [] of
             Inl e \<Rightarrow> Inl e
           | Inr None \<Rightarrow>
               Inr (None,
                    mempool\<lparr>mempoolMessages := mempoolMessages mempool @ [message]\<rparr>,
                    [MessageEvent message])
           | Inr (Some e) \<Rightarrow> Inr (Some e, mempool, []))
        else Inr (None, mempool, [])
      else Inr (Some (err 503 ''mempool full''), mempool, []))"

text \<open>The node: \<^verbatim>\<open>this.dbs\<close>, \<^verbatim>\<open>this.blocks\<close> and \<^verbatim>\<open>this.mempool\<close>.\<close>

record crds =
  this_dbs :: "db list"
  this_blocks :: "block list"
  this_mempool :: mempool

definition submitMessage ::
  "crypto \<Rightarrow> crds \<Rightarrow> message \<Rightarrow> exn + (verror option \<times> crds \<times> event list)" where
  "submitMessage c node message =
     (let db = (if length (this_dbs node) > 0 then last (this_dbs node) else DEFAULT_DB)
      in case addMessage c db (this_blocks node) (this_mempool node) message of
           Inl e \<Rightarrow> Inl e
         | Inr (result, mempool', events) \<Rightarrow>
             Inr (result, node\<lparr>this_mempool := mempool'\<rparr>, events))"

subsection \<open>Main-chain commit\<close>

type_synonym balancesMap = "(address \<times> (asset \<times> number) list) list"

text \<open>
  The statements the commit repeats for every credit and debit:
  \<^verbatim>\<open>let e = balances[address]; if (e === undefined) { e = {}; balances[address] = e; }\<close>
  \<^verbatim>\<open>let v = e[asset]; if (v === undefined) { v = 0; }\<close> read the balance (\<open>readBalance\<close>), and
  \<^verbatim>\<open>e[asset] = ...\<close> assigns it (\<open>assignBalance\<close>).
\<close>

definition readEntry :: "balancesMap \<Rightarrow> address \<Rightarrow> (asset \<times> number) list" where
  "readEntry bal address = (case map_of bal address of None \<Rightarrow> [] | Some addressEntry \<Rightarrow> addressEntry)"

definition readBalance :: "balancesMap \<Rightarrow> address \<Rightarrow> asset \<Rightarrow> number" where
  "readBalance bal address asset =
     (case map_of (readEntry bal address) asset of None \<Rightarrow> 0 | Some assetEntry \<Rightarrow> assetEntry)"

definition assignBalance :: "balancesMap \<Rightarrow> address \<Rightarrow> asset \<Rightarrow> number \<Rightarrow> balancesMap" where
  "assignBalance bal address asset assetEntry =
     AList.update address (AList.update asset assetEntry (readEntry bal address)) bal"

text \<open>
  Burn and drop: \<^verbatim>\<open>assetEntry = addressEntry[asset] - quantity\<close> without a default (a
  missing balance gives \<^verbatim>\<open>NaN\<close>, and \<^verbatim>\<open>NaN > 0\<close> is false); a positive rest is
  assigned, otherwise the asset key is deleted, and the address with it when no key is left.
\<close>

definition burnBalance :: "balancesMap \<Rightarrow> address \<Rightarrow> asset \<Rightarrow> number \<Rightarrow> balancesMap" where
  "burnBalance bal address asset quantity =
     (let addressEntry = readEntry bal address;
          bal1 = (case map_of bal address of
                    None \<Rightarrow> AList.update address addressEntry bal
                  | Some e \<Rightarrow> bal);
          addressEntry' = AList.delete asset addressEntry;
          deleted = (if length addressEntry' = 0 then AList.delete address bal1
                     else AList.update address addressEntry' bal1)
      in case map_of addressEntry asset of
           None \<Rightarrow> deleted
         | Some assetEntry \<Rightarrow>
             if assetEntry - quantity > 0 then
               AList.update address (AList.update asset (assetEntry - quantity) addressEntry) bal1
             else deleted)"

text \<open>
  The property name JavaScript makes of \<^verbatim>\<open>newDb.minters[asset]\<close> when the buy branch
  uses it as the key \<^verbatim>\<open>newDb.balances[srcAddress]\<close>.
\<close>

definition propertyKey :: "address option option \<Rightarrow> address" where
  "propertyKey minter =
     (case minter of None \<Rightarrow> ''undefined'' | Some None \<Rightarrow> ''null'' | Some (Some a) \<Rightarrow> a)"

text \<open>One iteration of the loop of \<^verbatim>\<open>_commitMainChainBlock\<close> on \<open>newDb\<close>.\<close>

definition commitMessage :: "crypto \<Rightarrow> db \<Rightarrow> message \<Rightarrow> exn + db" where
  "commitMessage c newDb message =
     (case body (payload message) of
        Coinbase asset quantity address \<Rightarrow>
          Inr (newDb\<lparr>balances :=
                 assignBalance (balances newDb) address asset
                   (readBalance (balances newDb) address asset + quantity)\<rparr>)
      | Send asset quantity srcAddress dstAddress publicKey \<Rightarrow>
          (let bal1 = assignBalance (balances newDb) srcAddress asset
                        (readBalance (balances newDb) srcAddress asset - quantity);
               bal2 = assignBalance bal1 dstAddress asset
                        (readBalance bal1 dstAddress asset + quantity)
           in Inr (case matchMint asset of
                     Some baseAsset \<Rightarrow>
                       newDb\<lparr>balances := bal2,
                             minters := AList.update baseAsset (Some dstAddress) (minters newDb)\<rparr>
                   | None \<Rightarrow> newDb\<lparr>balances := bal2\<rparr>))
      | Price asset price publicKey \<Rightarrow>
          Inr (newDb\<lparr>prices := AList.update asset (PNum price) (prices newDb)\<rparr>)
      | Buy asset quantity price publicKey \<Rightarrow>
          (let srcAddress = propertyKey (map_of (minters newDb) asset);
               dstAddress = getAddressFromPublicKey c publicKey;
               bal1 = assignBalance (balances newDb) srcAddress CRD
                        (readBalance (balances newDb) srcAddress CRD + quantity * price);
               bal2 = assignBalance bal1 dstAddress CRD
                        (readBalance bal1 dstAddress CRD - quantity * price);
               bal3 = assignBalance bal2 dstAddress asset
                        (readBalance bal2 dstAddress asset + quantity)
           in Inr (newDb\<lparr>balances := bal3\<rparr>))
      | Mint asset quantity publicKey \<Rightarrow>
          (let address = getAddressFromPublicKey c publicKey
           in Inr (newDb\<lparr>balances :=
                     assignBalance (balances newDb) address asset
                       (readBalance (balances newDb) address asset + quantity)\<rparr>))
      | Get address asset quantity \<Rightarrow>
          Inr (newDb\<lparr>balances :=
                 assignBalance (balances newDb) address asset
                   (readBalance (balances newDb) address asset + quantity)\<rparr>)
      | Burn asset quantity publicKey \<Rightarrow>
          (let address = getAddressFromPublicKey c publicKey
           in Inr (newDb\<lparr>balances := burnBalance (balances newDb) address asset quantity\<rparr>))
      | Drop address asset quantity \<Rightarrow>
          Inr (newDb\<lparr>balances := burnBalance (balances newDb) address asset quantity\<rparr>)
      | Minter asset publicKey \<Rightarrow>
          (let mintAsset = asset @ '':mint'';
               address = getAddressFromPublicKey c publicKey
           in Inr (newDb\<lparr>balances :=
                       assignBalance (balances newDb) address mintAsset
                         (readBalance (balances newDb) address mintAsset + 1),
                     minters := AList.update asset (Some address) (minters newDb)\<rparr>))
      | Unknown type \<Rightarrow>
          Inl (Error ''internal error: committing a block with unknown message type''))"

fun commitMessages :: "crypto \<Rightarrow> db \<Rightarrow> message list \<Rightarrow> exn + db" where
  "commitMessages c newDb [] = Inr newDb"
| "commitMessages c newDb (message # rest) =
     (case commitMessage c newDb message of
        Inl e \<Rightarrow> Inl e
      | Inr newDb' \<Rightarrow> commitMessages c newDb' rest)"

text \<open>\<^verbatim>\<open>while (xs.length > n) { xs.shift(); }\<close>\<close>

function shiftWhileLonger :: "nat \<Rightarrow> 'a list \<Rightarrow> 'a list" where
  "shiftWhileLonger n xs = (if length xs > n then shiftWhileLonger n (tl xs) else xs)"
  by pat_completeness auto
termination
  by (relation "measure (\<lambda>(n, xs). length xs)") auto

text \<open>
  \<^verbatim>\<open>_commitMainChainBlock(db, blocks, mempool, block)\<close> returns \<^verbatim>\<open>{newDb, newMempool}\<close>;
  \<open>newMempool\<close> is \<^verbatim>\<open>null\<close> when the mempool is.
\<close>

definition commitMainChainBlock ::
  "crypto \<Rightarrow> db \<Rightarrow> block list \<Rightarrow> mempool option \<Rightarrow> block \<Rightarrow> exn + (db \<times> mempool option)" where
  "commitMainChainBlock c db blocks mempool block =
     (case commitMessages c (clone db) (messages block) of
        Inl e \<Rightarrow> Inl e
      | Inr newDb \<Rightarrow>
          (let newDb' = newDb\<lparr>messageHashes :=
                          shiftWhileLonger MESSAGE_TTL
                            (messageHashes newDb @ [map message.hash (messages block)])\<rparr>;
               newMempool =
                 map_option (\<lambda>mp.
                   \<lparr>mempoolBlocks =
                      filter (\<lambda>mempoolBlock. block.hash mempoolBlock \<noteq> block.hash block)
                        (mempoolBlocks mp),
                    mempoolMessages =
                      filter (\<lambda>mempoolMessage.
                                \<not> list_ex (\<lambda>blockMessage.
                                             signature blockMessage = signature mempoolMessage)
                                     (messages block))
                        (mempoolMessages mp)\<rparr>) mempool
           in Inr (newDb', newMempool)))"

text \<open>
  The \<^verbatim>\<open>mainChain\<close> branch of \<^verbatim>\<open>Crds.addBlock\<close>: the block is verified against the tip
  snapshot and the chain, committed, and pushed on the undo stack and on the blocks buffer.
\<close>

definition addMainChainBlock ::
  "crypto \<Rightarrow> crds \<Rightarrow> block \<Rightarrow> exn + (verror option \<times> crds \<times> event list)" where
  "addMainChainBlock c node block =
     (let db = (if length (this_dbs node) > 0 then last (this_dbs node) else DEFAULT_DB)
      in case Block_verify c block db (this_blocks node) None of
           Inl e \<Rightarrow> Inl e
         | Inr (Some e) \<Rightarrow> Inr (Some e, node, [])
         | Inr None \<Rightarrow>
             (case commitMainChainBlock c db (this_blocks node) (Some (this_mempool node)) block of
                Inl e \<Rightarrow> Inl e
              | Inr (newDb, newMempool) \<Rightarrow>
                  Inr (None,
                       \<lparr>this_dbs = shiftWhileLonger UNDO_HEIGHT (this_dbs node @ [newDb]),
                        this_blocks =
                          shiftWhileLonger CHARGE_SETTLE_BLOCKS (this_blocks node @ [block]),
                        this_mempool =
                          (case newMempool of Some mp \<Rightarrow> mp | None \<Rightarrow> this_mempool node)\<rparr>,
                       [BlockEvent block])))"

subsection \<open>Side-chain commit\<close>






section \<open>The specification's words\<close>

text \<open>The last \<open>min n (length xs)\<close> elements of a list.\<close>

definition lastBlocks :: "nat \<Rightarrow> 'a list \<Rightarrow> 'a list" where
  "lastBlocks n xs = rev (take (min n (length xs)) (rev xs))"

text \<open>
  The median of a sample: the middle value of the sorted sample, the arithmetic mean of the
  two middle values when the size is even, and 0 for the empty sample.
\<close>

definition median :: "number list \<Rightarrow> number" where
  "median xs =
     (let s = sort xs; n = length s
      in if n = 0 then 0
         else if odd n then s ! (n div 2)
         else (s ! (n div 2 - 1) + s ! (n div 2)) / 2)"

definition mean :: "number list \<Rightarrow> number" where
  "mean xs = sum_list xs / of_nat (length xs)"

definition clamp :: "number \<Rightarrow> number \<Rightarrow> number \<Rightarrow> number" where
  "clamp x lo hi = (if x < lo then lo else if hi < x then hi else x)"

text \<open>
  The height of the next block: that of the last block, or 0 if there are no blocks, plus 1.
  A message is live when the next height is in its window of \<open>MESSAGE_TTL = 10\<close> heights.
\<close>

definition nextHeight :: "block list \<Rightarrow> number" where
  "nextHeight blocks = (case blocks of [] \<Rightarrow> 0 | b # bs \<Rightarrow> height (last blocks)) + 1"

definition live :: "message \<Rightarrow> block list \<Rightarrow> bool" where
  "live message blocks =
     (startHeight (payload message) \<le> nextHeight blocks
      \<and> nextHeight blocks < startHeight (payload message) + 10)"







definition isNonNegativeInteger :: "number \<Rightarrow> bool" where
  "isNonNegativeInteger v = (0 \<le> v \<and> of_int \<lfloor>v\<rfloor> = v)"









section \<open>An instance of the parameters, for closed examples\<close>

text \<open>
  The theorems below hold for every value of the \<open>crypto\<close> parameters. The closed examples
  instantiate them with a transparent stand-in: the signature of a key on a hash is the
  pair of both, an address is the key with \<^verbatim>\<open>@\<close> in front, \<^verbatim>\<open>bigint(s, 16)\<close> reads
  lower-case hexadecimal, and the two hash functions are tables over the example messages
  and blocks defined here.
\<close>

definition hexDigit :: "char \<Rightarrow> int option" where
  "hexDigit ch = map_of (zip ''0123456789abcdef'' [0, 1, 2, 3, 4, 5, 6, 7, 8, 9, 10, 11, 12, 13, 14, 15]) ch"

fun hexLoop :: "int \<Rightarrow> string \<Rightarrow> int option" where
  "hexLoop acc [] = Some acc"
| "hexLoop acc (ch # rest) =
     (case hexDigit ch of None \<Rightarrow> None | Some d \<Rightarrow> hexLoop (16 * acc + d) rest)"

definition testSign :: "string \<Rightarrow> string \<Rightarrow> string" where
  "testSign publicKey h = publicKey @ '':'' @ h"

definition testMessage :: "body \<Rightarrow> number \<Rightarrow> string \<Rightarrow> string \<Rightarrow> message" where
  "testMessage b sh h publicKey =
     \<lparr>payload = \<lparr>body = b, startHeight = sh\<rparr>, message.hash = h,
      signature = testSign publicKey h\<rparr>"

definition coinbaseB :: message where
  "coinbaseB = testMessage (Coinbase ''CRD'' 100 ''@B'') 1 ''c1'' ''NULL''"
definition minterGold :: message where
  "minterGold = testMessage (Minter ''GOLD'' ''M'') 1 ''c2'' ''M''"
definition priceGold :: message where
  "priceGold = testMessage (Price ''GOLD'' 5 ''M'') 2 ''c3'' ''M''"
definition buyGold :: message where
  "buyGold = testMessage (Buy ''GOLD'' 10 5 ''B'') 3 ''c4'' ''B''"
definition sendMint :: message where
  "sendMint = testMessage (Send ''GOLD:mint'' 1 ''@M'' ''@N'' ''M'') 3 ''c5'' ''M''"
definition sendCrd :: message where
  "sendCrd = testMessage (Send ''CRD'' 50 ''@N'' ''@C'' ''N'') 3 ''c6'' ''N''"
definition sendAE :: message where
  "sendAE = testMessage (Send ''CRD:mint'' 1 ''@A'' ''@E'' ''A'') 1 ''d1'' ''A''"
definition sendEA :: message where
  "sendEA = testMessage (Send ''CRD:mint'' 1 ''@E'' ''@A'' ''E'') 1 ''d2'' ''E''"
definition priceCrd :: message where
  "priceCrd = testMessage (Price ''CRD'' 7 ''A'') 2 ''d3'' ''A''"
definition sendLower :: message where
  "sendLower = testMessage (Send ''gold'' 1 ''@A'' ''@E'' ''A'') 1 ''e1'' ''A''"
definition sendOld :: message where
  "sendOld = testMessage (Send ''CRD'' 40 ''@B'' ''@C'' ''B'') 5 ''e2'' ''B''"
definition sendAll :: message where
  "sendAll = testMessage (Send ''CRD'' 100 ''@B'' ''@C'' ''B'') 2 ''e3'' ''B''"
definition sendHalf :: message where
  "sendHalf = testMessage (Send ''CRD'' 50 ''@B'' ''@C'' ''B'') 2 ''e4'' ''B''"

definition testMessages :: "message list" where
  "testMessages = [coinbaseB, minterGold, priceGold, buyGold, sendMint, sendCrd, sendAE, sendEA,
     priceCrd, sendLower, sendOld, sendAll, sendHalf]"

definition testBlock :: "string \<Rightarrow> string \<Rightarrow> number \<Rightarrow> number \<Rightarrow> number \<Rightarrow> message list \<Rightarrow> block" where
  "testBlock h p n d t ms =
     \<lparr>block.hash = h, prevHash = p, height = n, difficulty = d, version = ''0.0.1'',
      timestamp = t, messages = ms, nonce = 0\<rparr>"

definition block1 :: block where
  "block1 = testBlock ''0a01'' ''0'' 1 1000 1000 [coinbaseB, minterGold]"
definition block2 :: block where
  "block2 = testBlock ''0a02'' ''0a01'' 2 2000 2000 [priceGold]"
definition block3 :: block where
  "block3 = testBlock ''0a03'' ''0a02'' 3 3000 3000 [buyGold, sendMint, sendCrd]"
definition blockG :: block where
  "blockG = testBlock ''0b01'' ''0'' 1 1000 1000 [sendAE, sendEA]"
definition blockP :: block where
  "blockP = testBlock ''0b02'' ''0b01'' 2 2000 2000 [priceCrd]"
definition blockS :: block where
  "blockS = testBlock ''0c02'' ''0a01'' 2 2000 2000 [sendAll]"
definition blockH :: block where
  "blockH = testBlock ''0d02'' ''0a01'' 2 2000 2000 [sendHalf]"
definition block14 :: block where
  "block14 = testBlock ''0a0e'' ''0a0d'' 14 1000 14000 []"

definition blockEarly :: block where
  "blockEarly = testBlock ''0a04'' ''0a02'' 3 3000 1400 []"

definition testBlocks :: "block list" where
  "testBlocks = [block1, block2, block3, blockG, blockP, blockS, blockH, block14, blockEarly]"

definition testCrypto :: crypto where
  "testCrypto =
     \<lparr>sha256hex = (\<lambda>p. case find (\<lambda>m. payload m = p) testMessages of
                          Some m \<Rightarrow> message.hash m | None \<Rightarrow> ''00''),
      getHash = (\<lambda>b. if List.member testBlocks b then block.hash b else ''ff''),
      eccVerify = (\<lambda>publicKey h sig. sig = testSign publicKey h),
      getAddressFromPublicKey = (\<lambda>publicKey. ''@'' @ publicKey),
      NULL_PUBLIC_KEY = ''NULL'',
      bigint16 = hexLoop 0\<rparr>"

text \<open>
  The Dbs that the example blocks produce from the default Db (\<open>db1\<close>, \<open>db2\<close>, \<open>db3\<close>
  after \<open>block1\<close>, \<open>block2\<close>, \<open>block3\<close>; \<open>dbG\<close>, \<open>dbP\<close> after \<open>blockG\<close>,
  \<open>blockP\<close>; \<open>dbHalf\<close> after \<open>block1\<close>, \<open>blockH\<close>), and a node with an empty mempool.
\<close>

definition db1 :: db where
  "db1 = \<lparr>balances = [(''@B'', [(''CRD'', 100)]), (''@M'', [(''GOLD:mint'', 1)])],
      messageHashes = [[''c1'', ''c2'']],
      minters = [(''CRD'', None), (''GOLD'', Some ''@M'')],
      prices = [(''CRD'', PNull)]\<rparr>"

definition db2 :: db where
  "db2 = \<lparr>balances = [(''@B'', [(''CRD'', 100)]), (''@M'', [(''GOLD:mint'', 1)])],
      messageHashes = [[''c1'', ''c2''], [''c3'']],
      minters = [(''CRD'', None), (''GOLD'', Some ''@M'')],
      prices = [(''CRD'', PNull), (''GOLD'', PNum 5)]\<rparr>"


definition dbG :: db where
  "dbG = \<lparr>balances = [(''@A'', [(''CRD:mint'', 0)]), (''@E'', [(''CRD:mint'', 0)])],
           messageHashes = [[''d1'', ''d2'']],
           minters = [(''CRD'', Some ''@A'')],
           prices = [(''CRD'', PNull)]\<rparr>"

definition dbP :: db where
  "dbP = \<lparr>balances = [(''@A'', [(''CRD:mint'', 0)]), (''@E'', [(''CRD:mint'', 0)])],
           messageHashes = [[''d1'', ''d2''], [''d3'']],
           minters = [(''CRD'', Some ''@A'')],
           prices = [(''CRD'', PNum 7)]\<rparr>"


definition testNode :: "db list \<Rightarrow> block list \<Rightarrow> crds" where
  "testNode dbs blocks = \<lparr>this_dbs = dbs, this_blocks = blocks, this_mempool = DEFAULT_MEMPOOL\<rparr>"

lemmas fixture_defs =
  testCrypto_def testMessages_def testBlocks_def testMessage_def testBlock_def testSign_def
  coinbaseB_def minterGold_def priceGold_def buyGold_def sendMint_def sendCrd_def sendAE_def
  sendEA_def priceCrd_def sendLower_def sendOld_def sendAll_def sendHalf_def block1_def block2_def
  block3_def blockG_def blockP_def blockS_def blockH_def block14_def blockEarly_def db1_def db2_def
  hexDigit_def

section \<open>Message validator: the window of a message\<close>

lemma Message_verify_window:
  assumes "sha256hex c (payload message) = message.hash message"
  shows "Message_verify c message db blocks mempool confirmingMessages =
     (if live message blocks then Message_verify c message db blocks mempool confirmingMessages
      else Inr (Some (err 400 ''ttl expired'')))"
  using assms
  by (cases blocks) (simp_all add: Message_verify_def Let_def live_def nextHeight_def MESSAGE_TTL_def)

text \<open>
  Claim C3. For every message whose payload hashes correctly, \<^verbatim>\<open>Message.verify\<close> accepts
  only when the next height (the height of the last block, or 0 if there are no blocks, plus
  1) satisfies \<open>startHeight \<le> nextHeight < startHeight + 10\<close>; when the next height is
  outside this window it returns the error \<^verbatim>\<open>{status: 400, error: "ttl expired"}\<close>; in
  particular a message with \<open>startHeight = 5\<close> submitted at tail height 14 is rejected with
  that error.
\<close>

theorem Message_verify_ttl:
  assumes "sha256hex c (payload message) = message.hash message"
  shows "(Message_verify c message db blocks mempool confirmingMessages = Inr None
            \<longrightarrow> live message blocks)
       \<and> (\<not> live message blocks
            \<longrightarrow> Message_verify c message db blocks mempool confirmingMessages
                 = Inr (Some \<lparr>status = 400, error = Some ''ttl expired'', stack = None,
                              soft = False\<rparr>))
       \<and> (blocks \<noteq> [] \<and> height (last blocks) = 14 \<and> startHeight (payload message) = 5
            \<longrightarrow> Message_verify c message db blocks mempool confirmingMessages
                 = Inr (Some \<lparr>status = 400, error = Some ''ttl expired'', stack = None,
                              soft = False\<rparr>))"
proof -
  let ?r = "Message_verify c message db blocks mempool confirmingMessages"
  let ?ttl = "Inr (Some \<lparr>status = 400, error = Some ''ttl expired'', stack = None,
                          soft = False\<rparr>)"
  have dead: "?r = ?ttl" if "\<not> live message blocks"
    using Message_verify_window [OF assms, of db blocks mempool confirmingMessages] that
    by (simp add: err_def)
  have accepted: "live message blocks" if "?r = Inr None"
  proof (rule ccontr)
    assume "\<not> live message blocks"
    then have "?r = ?ttl" by (rule dead)
    with that show False by simp
  qed
  have scenario: "\<not> live message blocks"
    if "blocks \<noteq> [] \<and> height (last blocks) = 14 \<and> startHeight (payload message) = 5"
    using that by (cases blocks) (simp_all add: live_def nextHeight_def)
  show ?thesis
    using dead accepted scenario by blast
qed

theorem Message_verify_ttl_witness:
  "sha256hex testCrypto (payload sendOld) = message.hash sendOld
   \<and> [block14] \<noteq> [] \<and> height (last [block14]) = 14 \<and> startHeight (payload sendOld) = 5
   \<and> \<not> live sendOld [block14]
   \<and> Message_verify testCrypto sendOld db1 [block14] None []
       = Inr (Some \<lparr>status = 400, error = Some ''ttl expired'', stack = None, soft = False\<rparr>)
   \<and> Message_verify testCrypto coinbaseB DEFAULT_DB [] None [] = Inr None
   \<and> live coinbaseB []"
proof -
  have h: "sha256hex testCrypto (payload sendOld) = message.hash sendOld"
    by (simp add: fixture_defs)
  have h': "sha256hex testCrypto (payload coinbaseB) = message.hash coinbaseB"
    by (simp add: fixture_defs)
  have s: "[block14] \<noteq> [] \<and> height (last [block14]) = 14 \<and> startHeight (payload sendOld) = 5"
    by (simp add: fixture_defs)
  have a: "Message_verify testCrypto coinbaseB DEFAULT_DB [] None [] = Inr None"
    by code_simp
  have d: "\<not> live sendOld [block14]"
    by (simp add: live_def nextHeight_def fixture_defs)
  show ?thesis
    using Message_verify_ttl [OF h, of db1 "[block14]" None "[]"]
      Message_verify_ttl [OF h', of DEFAULT_DB "[]" None "[]"] h s a d
    by simp
qed

section \<open>Block validator: the order of the checks\<close>





section \<open>Consensus engine: minimum timestamp and base difficulty\<close>

lemma sliceLast_lastBlocks: "sliceLast n xs = lastBlocks n xs"
proof -
  have "rev (take (min n (length xs)) (rev xs)) = drop (length xs - min n (length xs)) xs"
    by (simp add: take_rev)
  moreover have "length xs - min n (length xs) = length xs - n"
    by (simp add: min_def)
  ultimately show ?thesis
    by (simp add: sliceLast_def lastBlocks_def)
qed

lemma map_insort_key: "map f (insort_key f x xs) = insort (f x) (map f xs)"
  by (induction xs) simp_all

lemma map_sort_key: "map f (sort_key f xs) = sort (map f xs)"
  by (induction xs) (simp_all add: map_insort_key)

lemma median_index:
  "(if length s > 0 then
      (if length s mod 2 \<noteq> 0 then f (s ! ((length s - 1) div 2))
       else (f (s ! ((length s - 1) div 2)) + f (s ! ((length s - 1) div 2 + 1))) / 2)
    else 0) =
   (if length (map f s) = 0 then 0
    else if odd (length (map f s)) then map f s ! (length (map f s) div 2)
    else (map f s ! (length (map f s) div 2 - 1) + map f s ! (length (map f s) div 2)) / (2::rat))"
proof (cases s)
  case Nil
  then show ?thesis by simp
next
  case (Cons a as)
  then have ne: "s \<noteq> []" by simp
  show ?thesis
  proof (cases "odd (length s)")
    case True
    then obtain k where k: "length s = 2 * k + 1"
      by (auto elim: oddE)
    then have "(length s - 1) div 2 = k" "length s div 2 = k" "k < length s"
      by simp_all
    then show ?thesis
      using ne True by (simp add: odd_iff_mod_2_eq_one)
  next
    case False
    then obtain k where k: "length s = 2 * k"
      by (auto elim: evenE)
    with ne obtain j where j: "k = Suc j"
      by (cases k) auto
    have "(length s - 1) div 2 = j" "length s div 2 = Suc j" "j < length s" "Suc j < length s"
      using k j by simp_all
    then show ?thesis
      using ne False by simp
  qed
qed

lemma getNextBlockMinTimestamp_median:
  "getNextBlockMinTimestamp blocks = median (map timestamp (lastBlocks TARGET_BLOCKS blocks))"
proof -
  let ?s = "sort_key timestamp (lastBlocks TARGET_BLOCKS blocks)"
  have "getNextBlockMinTimestamp blocks =
    (if length ?s > 0 then
      (if length ?s mod 2 \<noteq> 0 then timestamp (?s ! ((length ?s - 1) div 2))
       else (timestamp (?s ! ((length ?s - 1) div 2))
               + timestamp (?s ! ((length ?s - 1) div 2 + 1))) / 2)
    else 0)"
    unfolding getNextBlockMinTimestamp_def Let_def sliceLast_lastBlocks ..
  also have "\<dots> = median (map timestamp (lastBlocks TARGET_BLOCKS blocks))"
    unfolding median_def Let_def map_sort_key [symmetric] by (rule median_index)
  finally show ?thesis .
qed

lemma Block_verify_timestamp_rejected:
  assumes "timestamp block < getNextBlockMinTimestamp blocks"
  shows "\<exists>e. Block_verify c block db blocks mempool = Inr (Some e)"
  using assms by (simp add: Block_verify_def checkTimestamp_def)

lemma Block_verify_invalid_timestamp:
  assumes "timestamp block < getNextBlockMinTimestamp blocks"
    and "checkHash c block" "checkPrevHash blocks block" "checkHeight blocks block"
  shows "Block_verify c block db blocks mempool = Inr (Some (err 400 ''invalid timestamp''))"
  using assms by (simp add: Block_verify_def checkTimestamp_def)

text \<open>
  Claim C6. For every list of blocks, \<^verbatim>\<open>_getNextBlockMinTimestamp\<close> is the median of the
  timestamps of the last \<open>min 10 (length blocks)\<close> blocks, the median of an even-sized
  sample being the arithmetic mean of its two middle values and that of the empty sample 0.
  \<^verbatim>\<open>Block.verify\<close> rejects a block whose timestamp is below this value: it never accepts
  it, and when the three checks before the timestamp pass, the error is
  \<^verbatim>\<open>{status: 400, error: "invalid timestamp"}\<close>.
\<close>

theorem min_timestamp_is_median:
  "getNextBlockMinTimestamp blocks = median (map timestamp (lastBlocks 10 blocks))
   \<and> (timestamp block < getNextBlockMinTimestamp blocks \<longrightarrow>
        (\<exists>e. Block_verify c block db blocks mempool = Inr (Some e))
        \<and> (checkHash c block \<and> checkPrevHash blocks block \<and> checkHeight blocks block \<longrightarrow>
             Block_verify c block db blocks mempool
               = Inr (Some \<lparr>status = 400, error = Some ''invalid timestamp'', stack = None,
                            soft = False\<rparr>)))"
  using getNextBlockMinTimestamp_median [of blocks]
    Block_verify_timestamp_rejected [of block blocks c db mempool]
    Block_verify_invalid_timestamp [of block blocks c db mempool]
  by (auto simp: TARGET_BLOCKS_def err_def)

theorem min_timestamp_is_median_witness:
  "getNextBlockMinTimestamp [block1, block2] = 1500
   \<and> median (map timestamp (lastBlocks 10 [block1, block2])) = 1500
   \<and> timestamp blockEarly < getNextBlockMinTimestamp [block1, block2]
   \<and> Block_verify testCrypto (blockEarly) db2 [block1, block2] None
       = Inr (Some \<lparr>status = 400, error = Some ''invalid timestamp'', stack = None,
                    soft = False\<rparr>)"
proof -
  have m: "median (map timestamp (lastBlocks 10 [block1, block2])) = 1500"
    by code_simp
  have v: "Block_verify testCrypto (blockEarly) db2 [block1, block2] None
       = Inr (Some \<lparr>status = 400, error = Some ''invalid timestamp'', stack = None,
                    soft = False\<rparr>)"
    by code_simp
  have t: "timestamp blockEarly = 1400"
    by (simp add: fixture_defs)
  show ?thesis
    using min_timestamp_is_median [of "[block1, block2]" "blockEarly"
        testCrypto db2 None] m v t
    by simp
qed

lemma timeDiffLoop_Some:
  "\<exists>f' l'. timeDiffLoop bs (Some f) (Some l) = (Some f', Some l')
     \<and> timestamp f' = Min (insert (timestamp f) (timestamp ` set bs))
     \<and> timestamp l' = Max (insert (timestamp l) (timestamp ` set bs))"
proof (induction bs arbitrary: f l)
  case Nil
  then show ?case by simp
next
  case (Cons b bs)
  let ?f = "if timestamp b < timestamp f then b else f"
  let ?l = "if timestamp b > timestamp l then b else l"
  from Cons.IH [of ?f ?l] obtain f' l' where
    loop: "timeDiffLoop bs (Some ?f) (Some ?l) = (Some f', Some l')"
    and f': "timestamp f' = Min (insert (timestamp ?f) (timestamp ` set bs))"
    and l': "timestamp l' = Max (insert (timestamp ?l) (timestamp ` set bs))"
    by blast
  have step: "timeDiffLoop (b # bs) (Some f) (Some l) = timeDiffLoop bs (Some ?f) (Some ?l)"
    by simp
  have "timestamp ?f = min (timestamp b) (timestamp f)"
    by (simp add: min_def)
  then have "Min (insert (timestamp ?f) (timestamp ` set bs))
      = Min (insert (timestamp f) (timestamp ` set (b # bs)))"
    by (cases "bs = []") (simp_all add: min.commute min.left_commute)
  moreover have "timestamp ?l = max (timestamp b) (timestamp l)"
    by (simp add: max_def)
  then have "Max (insert (timestamp ?l) (timestamp ` set bs))
      = Max (insert (timestamp l) (timestamp ` set (b # bs)))"
    by (cases "bs = []") (simp_all add: max.commute max.left_commute)
  ultimately show ?case
    using loop f' l' step by metis
qed

lemma checkBlocksTimeDiff_Max_Min:
  assumes "bs \<noteq> []"
  shows "checkBlocksTimeDiff bs = Max (set (map timestamp bs)) - Min (set (map timestamp bs))"
proof -
  from assms obtain b rest where bs: "bs = b # rest"
    by (cases bs) auto
  from timeDiffLoop_Some [of rest b b] obtain f' l' where
    loop: "timeDiffLoop rest (Some b) (Some b) = (Some f', Some l')"
    and f': "timestamp f' = Min (insert (timestamp b) (timestamp ` set rest))"
    and l': "timestamp l' = Max (insert (timestamp b) (timestamp ` set rest))"
    by blast
  show ?thesis
    using loop f' l' by (simp add: checkBlocksTimeDiff_def bs)
qed

lemma fold_add_sum_list:
  "fold (\<lambda>b acc. acc + g b) bs (a::rat) = a + sum_list (map g bs)"
  by (induction bs arbitrary: a) (simp_all add: add.assoc)

lemma averageDifficulty_mean:
  "bs \<noteq> [] \<Longrightarrow> averageDifficulty bs = mean (map difficulty bs)"
  by (simp add: averageDifficulty_def mean_def fold_add_sum_list)

lemma clamp_max_min: "lo \<le> hi \<Longrightarrow> max (min x hi) lo = clamp x lo hi"
  by (auto simp: clamp_def max_def min_def)

lemma lastBlocks_nonempty: "0 < n \<Longrightarrow> xs \<noteq> [] \<Longrightarrow> lastBlocks n xs \<noteq> []"
  by (simp add: lastBlocks_def)

text \<open>
  Claim C7. For every non-empty list of blocks, \<^verbatim>\<open>_getNextBlockBaseDifficulty\<close> returns
  \<open>max (dbar / f) 1000\<close>, where \<open>W\<close> is the last \<open>min 10 (length blocks)\<close> blocks, \<open>dbar\<close>
  the mean of the difficulties of \<open>W\<close>, \<open>dt\<close> the greatest timestamp of \<open>W\<close> minus the
  least, and \<open>f\<close> is \<open>dt / 600000\<close> clamped to the interval from 1/2 to 2.
\<close>

theorem getNextBlockBaseDifficulty_formula:
  assumes "blocks \<noteq> []"
  shows "getNextBlockBaseDifficulty blocks =
    (let W = lastBlocks 10 blocks;
         dbar = mean (map difficulty W);
         dt = Max (set (map timestamp W)) - Min (set (map timestamp W));
         f = clamp (dt / 600000) (1 / 2) 2
     in max (dbar / f) 1000)"
proof -
  have W: "lastBlocks 10 blocks \<noteq> []"
    using assms by (simp add: lastBlocks_nonempty)
  show ?thesis
    unfolding getNextBlockBaseDifficulty_def Let_def sliceLast_lastBlocks TARGET_BLOCKS_def
    using W
    by (simp add: checkBlocksTimeDiff_Max_Min averageDifficulty_mean
        TARGET_TIME_def TARGET_SWAY_MAX_def TARGET_SWAY_MIN_def MIN_DIFFICULTY_def
        clamp_max_min)
qed

theorem getNextBlockBaseDifficulty_formula_witness:
  "[block1, block2] \<noteq> [] \<and> getNextBlockBaseDifficulty [block1, block2] = 3000"
proof -
  have "(let W = lastBlocks 10 [block1, block2];
         dbar = mean (map difficulty W);
         dt = Max (set (map timestamp W)) - Min (set (map timestamp W));
         f = clamp (dt / 600000) (1 / 2) 2
     in max (dbar / f) 1000) = 3000"
    by (simp add: lastBlocks_def mean_def clamp_def block1_def block2_def testBlock_def)
  then show ?thesis
    using getNextBlockBaseDifficulty_formula [of "[block1, block2]"] by simp
qed

section \<open>Chain manager: side-chain commit and duplicate messages\<close>


text \<open>
  Claim C10. For every mempool with fewer than 10000 messages that already holds a message
  with the hash of the submitted message, \<^verbatim>\<open>addMessage\<close> returns \<^verbatim>\<open>null\<close> without
  verifying the message, without changing the mempool and without emitting an event, and so
  does \<^verbatim>\<open>submitMessage\<close>. The result does not depend on the Db, the blocks or the
  parameters, so it is the same when \<^verbatim>\<open>Message.verify\<close> would reject the message or throw.
\<close>

theorem addMessage_duplicate:
  assumes "length (mempoolMessages mempool) < 10000"
    and "\<exists>mempoolMessage \<in> set (mempoolMessages mempool).
           message.hash mempoolMessage = message.hash message"
  shows "addMessage c db blocks mempool message = Inr (None, mempool, [])
       \<and> (this_mempool node = mempool
            \<longrightarrow> submitMessage c node message = Inr (None, node, []))"
proof -
  have dup: "list_ex (\<lambda>mempoolMessage. equals mempoolMessage message) (mempoolMessages mempool)"
    using assms(2) by (auto simp: list_ex_iff equals_def)
  have add: "addMessage c db' blocks' mempool message = Inr (None, mempool, [])" for db' blocks'
    using assms(1) dup by (simp add: addMessage_def MESSAGES_PER_BLOCK_MAX_def)
  then show ?thesis
    by (auto simp: submitMessage_def Let_def)
qed

theorem addMessage_duplicate_witness:
  "length (mempoolMessages \<lparr>mempoolBlocks = [], mempoolMessages = [sendOld]\<rparr>) < 10000
   \<and> (\<exists>mempoolMessage \<in> set (mempoolMessages \<lparr>mempoolBlocks = [], mempoolMessages = [sendOld]\<rparr>).
         message.hash mempoolMessage = message.hash sendOld)
   \<and> Message_verify testCrypto sendOld db1 [block14]
         (Some \<lparr>mempoolBlocks = [], mempoolMessages = [sendOld]\<rparr>) []
       = Inr (Some \<lparr>status = 400, error = Some ''ttl expired'', stack = None, soft = False\<rparr>)
   \<and> addMessage testCrypto db1 [block14] \<lparr>mempoolBlocks = [], mempoolMessages = [sendOld]\<rparr> sendOld
       = Inr (None, \<lparr>mempoolBlocks = [], mempoolMessages = [sendOld]\<rparr>, [])
   \<and> submitMessage testCrypto
         \<lparr>this_dbs = [db1], this_blocks = [block14],
          this_mempool = \<lparr>mempoolBlocks = [], mempoolMessages = [sendOld]\<rparr>\<rparr> sendOld
       = Inr (None,
              \<lparr>this_dbs = [db1], this_blocks = [block14],
               this_mempool = \<lparr>mempoolBlocks = [], mempoolMessages = [sendOld]\<rparr>\<rparr>, [])"
proof -
  let ?mp = "\<lparr>mempoolBlocks = [], mempoolMessages = [sendOld]\<rparr>"
  let ?node = "\<lparr>this_dbs = [db1], this_blocks = [block14], this_mempool = ?mp\<rparr>"
  have 1: "length (mempoolMessages ?mp) < 10000"
    by simp
  have 2: "\<exists>mempoolMessage \<in> set (mempoolMessages ?mp).
      message.hash mempoolMessage = message.hash sendOld"
    by simp
  have 3: "Message_verify testCrypto sendOld db1 [block14] (Some ?mp) []
       = Inr (Some \<lparr>status = 400, error = Some ''ttl expired'', stack = None, soft = False\<rparr>)"
    by code_simp
  show ?thesis
    using addMessage_duplicate [OF 1 2, of testCrypto db1 "[block14]" ?node] 1 2 3
    by simp
qed

section \<open>State projector: balances\<close>




















section \<open>Accepted blocks keep balances non-negative, buys apart\<close>




lemma isPositiveInteger_nonneg: "isPositiveInteger q \<Longrightarrow> isNonNegativeInteger q"
  by (simp add: isPositiveInteger_def isNonNegativeInteger_def)

























section \<open>Message validator: send\<close>







section \<open>The base currency\<close>

text \<open>
  Claim C9 says that from the default Db the minter of CRD stays \<^verbatim>\<open>null\<close> and its price
  infinite after every sequence of accepted main-chain blocks. The code accepts a first
  block that holds the two sends of one \<^verbatim>\<open>CRD:mint\<close> from \<^verbatim>\<open>@A\<close> to \<^verbatim>\<open>@E\<close> and from
  \<^verbatim>\<open>@E\<close> to \<^verbatim>\<open>@A\<close>: each is validated with the other as its sibling, which credits its
  source the unit it sends. The commit sets the minter of CRD to \<^verbatim>\<open>@E\<close> and then to
  \<^verbatim>\<open>@A\<close>; in the next block \<^verbatim>\<open>@A\<close>, now the minter, sets the price of CRD to 7.
\<close>

theorem CRD_minter_and_price_change:
  "map_of (minters DEFAULT_DB) CRD = Some None
   \<and> map_of (prices DEFAULT_DB) CRD = Some PInfinity
   \<and> addMainChainBlock testCrypto (testNode [] []) blockG
     = Inr (None, testNode [dbG] [blockG], [BlockEvent blockG])
   \<and> map_of (minters dbG) CRD = Some (Some ''@A'')
   \<and> addMainChainBlock testCrypto (testNode [dbG] [blockG]) blockP
     = Inr (None, testNode [dbG, dbP] [blockG, blockP], [BlockEvent blockP])
   \<and> map_of (prices dbP) CRD = Some (PNum 7)"
proof -
  have 1: "map_of (minters DEFAULT_DB) CRD = Some None
     \<and> map_of (prices DEFAULT_DB) CRD = Some PInfinity"
    by (simp add: DEFAULT_DB_def)
  have 2: "addMainChainBlock testCrypto (testNode [] []) blockG
     = Inr (None, testNode [dbG] [blockG], [BlockEvent blockG])"
    by code_simp
  have 3: "map_of (minters dbG) CRD = Some (Some ''@A'')"
    by (simp add: dbG_def CRD_def)
  have 4: "addMainChainBlock testCrypto (testNode [dbG] [blockG]) blockP
     = Inr (None, testNode [dbG, dbP] [blockG, blockP], [BlockEvent blockP])"
    by code_simp
  have 5: "map_of (prices dbP) CRD = Some (PNum 7)"
    by (simp add: dbP_def CRD_def)
  from 1 2 3 4 5 show ?thesis by blast
qed

end
